theory Spec2Isabelle
  imports Main "HOL-Library.AList"
begin

section \<open>The follower index form of the cross-cluster replication plugin\<close>

text \<open>
  A shallow embedding of \<^verbatim>\<open>follower_index_form.js\<close>: the state transitions
  \<^verbatim>\<open>updateFields\<close> and \<^verbatim>\<open>updateFormErrors\<close>, the constructor, and the
  handlers of the component class. A handler is a function from the component's state to
  the next state and the list of calls it makes to its collaborators (the callbacks of the
  props, the fatal-error reporter, the debounced name check).
\<close>

subsection \<open>JavaScript values and objects\<close>

text \<open>
  The values the form handles. A string is a list of code units in the range of
  \<^typ>\<open>char\<close> (U+0000 to U+00FF); a number is an integer (the form compares numbers only
  with the status code 404). An object is the list of its own enumerable properties in
  insertion order, which is the order of \<^verbatim>\<open>Object.keys\<close>, of
  \<^verbatim>\<open>Object.values\<close> and of the spread syntax for keys that are not array indices
  (JavaScript puts those first; no field of the form has such a name, and the lookups do
  not depend on the order).
\<close>

datatype jsval =
    Undefined
  | Null
  | JBool bool
  | JNum int
  | JStr string
  | JObj "(string \<times> jsval) list"

type_synonym obj = "(string \<times> jsval) list"

text \<open>\<^verbatim>\<open>o[k]\<close>: a key the object does not have reads \<^verbatim>\<open>undefined\<close>.\<close>

definition getProp :: "obj \<Rightarrow> string \<Rightarrow> jsval" where
  "getProp ob k = (case map_of ob k of None \<Rightarrow> Undefined | Some v \<Rightarrow> v)"

text \<open>\<^verbatim>\<open>v.k\<close> on a value that is not \<^verbatim>\<open>undefined\<close> or \<^verbatim>\<open>null\<close>: a primitive has
  none of the properties the form reads.\<close>

fun member :: "jsval \<Rightarrow> string \<Rightarrow> jsval" where
  "member (JObj ob) k = getProp ob k"
| "member _ k = Undefined"

text \<open>The conversion to boolean of \<^verbatim>\<open>if (v)\<close>, \<^verbatim>\<open>!v\<close> and \<^verbatim>\<open>v && w\<close>.\<close>

fun truthy :: "jsval \<Rightarrow> bool" where
  "truthy Undefined = False"
| "truthy Null = False"
| "truthy (JBool b) = b"
| "truthy (JNum n) = (n \<noteq> 0)"
| "truthy (JStr s) = (s \<noteq> [])"
| "truthy (JObj ob) = True"

text \<open>
  \<^verbatim>\<open>{ ...target, ...source }\<close>: the properties of \<^verbatim>\<open>source\<close> are assigned in
  order; a key that is already there keeps its position and takes the new value, a new
  key is appended. Spreading \<^verbatim>\<open>undefined\<close> adds nothing.
\<close>

definition assign :: "obj \<Rightarrow> obj \<Rightarrow> obj" where
  "assign target source = fold (\<lambda>(k, v). AList.update k v) source target"

fun spread :: "obj option \<Rightarrow> obj" where
  "spread None = []"
| "spread (Some ob) = ob"

text \<open>A JSX element \<^verbatim>\<open><Type p1={v1} ... />\<close>.\<close>

definition element :: "string \<Rightarrow> obj \<Rightarrow> jsval" where
  "element ty ps = JObj [(''type'', JStr ty), (''props'', JObj ps)]"

text \<open>
  \<^verbatim>\<open>String.prototype.trim\<close>: strips the white space and line terminators of ECMAScript
  from both ends; within U+0000 to U+00FF these are TAB, LF, VT, FF, CR, SP and NBSP.
\<close>

definition isWhiteSpace :: "char \<Rightarrow> bool" where
  "isWhiteSpace c = (of_char c \<in> {9, 10, 11, 12, 13, 32, 160 :: nat})"

definition trim :: "string \<Rightarrow> string" where
  "trim s = rev (dropWhile isWhiteSpace (rev (dropWhile isWhiteSpace s)))"

subsection \<open>The modules the form imports\<close>

text \<open>
  The form imports the table of advanced settings, two validators, the query string
  helpers and the translation function from other modules. They are parameters of the
  model. A validator is a pure function from a field's value to \<^verbatim>\<open>undefined\<close>,
  \<^verbatim>\<open>null\<close> or an error descriptor; an entry of the table may have no validator. No
  entry of the table is named \<^verbatim>\<open>__proto__\<close>, for which an assignment
  \<^verbatim>\<open>map[field] = validator\<close> would set the prototype of the object and not a key.
  The last parameter is of the runtime: what a member of \<^verbatim>\<open>Object.prototype\<close> other
  than \<^verbatim>\<open>toString\<close> returns when it is called on a value without a receiver.
\<close>

record advancedSetting =
  field :: string
  validator :: "(jsval \<Rightarrow> jsval) option"

record modules =
  advancedSettingsFields :: "advancedSetting list"
  indexNameValidator :: "jsval \<Rightarrow> jsval"
  leaderIndexValidator :: "jsval \<Rightarrow> jsval"
  routingSearch :: string
  extractQueryParams :: "string \<Rightarrow> obj"
  getRemoteClusterName :: "jsval \<Rightarrow> jsval \<Rightarrow> jsval"
  translate :: "string \<Rightarrow> obj \<Rightarrow> jsval"
  objectPrototypeCall :: "string \<Rightarrow> jsval \<Rightarrow> jsval"

text \<open>
  Modelled from the spec: \<^verbatim>\<open>emptyAdvancedSettings\<close> is imported from
  \<^verbatim>\<open>advanced_settings_fields\<close>, which is not part of the sources. The spec describes it
  as the fixed set of advanced-setting fields, each initialised to the empty sentinel; the
  sentinel is the empty string that \<^verbatim>\<open>toggleAdvancedSettings\<close> compares with.
\<close>

definition emptyAdvancedSettings :: "modules \<Rightarrow> obj" where
  "emptyAdvancedSettings m =
     fold (\<lambda>advancedSetting ob. AList.update (field advancedSetting) (JStr []) ob)
       (advancedSettingsFields m) []"

text \<open>
  \<^verbatim>\<open>fieldToValidatorMap\<close>: the reduction over the advanced settings, started from the
  entries of \<^verbatim>\<open>name\<close> and \<^verbatim>\<open>leaderIndex\<close>. The table is a plain object, so the
  lookup \<^verbatim>\<open>fieldToValidatorMap[field]\<close> of a name that is not an own key goes on to
  \<^verbatim>\<open>Object.prototype\<close> and finds its member of that name, which is truthy and is then
  called as the validator: \<^verbatim>\<open>toString\<close>, called without a receiver, returns
  \<^verbatim>\<open>'[object Undefined]'\<close> for every argument. An own key hides the inherited member,
  also when its value is \<^verbatim>\<open>undefined\<close>. The test \<^verbatim>\<open>if (validator)\<close> of
  \<^verbatim>\<open>getFieldsErrors\<close> is the case distinction on the result of the lookup. The model
  has no exceptions: a member whose call throws is not described by
  \<open>objectPrototypeCall\<close>.
\<close>

definition objectPrototypeNames :: "string list" where
  "objectPrototypeNames =
     [''constructor'', ''__defineGetter__'', ''__defineSetter__'', ''hasOwnProperty'',
      ''__lookupGetter__'', ''__lookupSetter__'', ''isPrototypeOf'', ''propertyIsEnumerable'',
      ''toString'', ''valueOf'', ''__proto__'', ''toLocaleString'']"

definition objectPrototypeMember :: "modules \<Rightarrow> string \<Rightarrow> (jsval \<Rightarrow> jsval) option" where
  "objectPrototypeMember m f =
     (if f = ''toString'' then Some (\<lambda>v. JStr ''[object Undefined]'')
      else if f \<in> set objectPrototypeNames then Some (objectPrototypeCall m f)
      else None)"

definition fieldToValidatorTable :: "modules \<Rightarrow> (string \<times> (jsval \<Rightarrow> jsval) option) list" where
  "fieldToValidatorTable m =
     fold (\<lambda>advancedSetting tbl. AList.update (field advancedSetting) (validator advancedSetting) tbl)
       (advancedSettingsFields m)
       [(''name'', Some (indexNameValidator m)), (''leaderIndex'', Some (leaderIndexValidator m))]"

definition fieldToValidatorMap :: "modules \<Rightarrow> string \<Rightarrow> (jsval \<Rightarrow> jsval) option" where
  "fieldToValidatorMap m f =
     (case map_of (fieldToValidatorTable m) f of None \<Rightarrow> objectPrototypeMember m f | Some v \<Rightarrow> v)"


subsection \<open>State, props and calls to collaborators\<close>

text \<open>
  The component's state. \<^verbatim>\<open>cachedAdvancedSettings\<close> is not set by the constructor, so it
  is \<^verbatim>\<open>undefined\<close> (\<open>None\<close>) until the advanced settings are toggled. No code writes a
  key \<^verbatim>\<open>fields\<close> to the state.
\<close>

record state =
  isNew :: bool
  followerIndex :: obj
  fieldsErrors :: obj
  areErrorsVisible :: bool
  areAdvancedSettingsVisible :: bool
  isValidatingIndexName :: bool
  cachedAdvancedSettings :: "obj option"

text \<open>The props that the modelled methods read; an absent object prop is \<open>None\<close>.\<close>

record props =
  followerIndexProp :: "obj option"
  apiError :: "obj option"
  remoteClusters :: jsval
  formatMessage :: "obj \<Rightarrow> obj option \<Rightarrow> jsval"

datatype call =
    SaveFollowerIndex jsval obj
  | ClearApiError
  | FatalError jsval jsval
  | ValidateIndexName string
  | Navigate string

subsection \<open>State transitions\<close>

definition updateFields :: "obj option \<Rightarrow> state \<Rightarrow> state" where
  "updateFields flds st = st\<lparr>followerIndex := assign (followerIndex st) (spread flds)\<rparr>"

definition updateFormErrors :: "obj \<Rightarrow> state \<Rightarrow> state" where
  "updateFormErrors errors st = st\<lparr>fieldsErrors := assign (fieldsErrors st) errors\<rparr>"

subsection \<open>The component\<close>

definition getFieldsErrors :: "modules \<Rightarrow> obj \<Rightarrow> obj" where
  "getFieldsErrors m newFields =
     fold (\<lambda>fld errors.
            (case fieldToValidatorMap m fld of
               None \<Rightarrow> errors
             | Some vald \<Rightarrow> AList.update fld (vald (getProp newFields fld)) errors))
       (map fst newFields) []"


text \<open>\<^verbatim>\<open>this.state.fields\<close>: the state has no such key, so the read is \<^verbatim>\<open>undefined\<close>.\<close>

definition stateFields :: "state \<Rightarrow> obj option" where
  "stateFields st = None"

definition onFieldsChange :: "modules \<Rightarrow> props \<Rightarrow> obj option \<Rightarrow> state \<Rightarrow> state \<times> call list" where
  "onFieldsChange m p flds st =
     (let st1 = updateFields flds st;
          newFields = assign (spread (stateFields st)) (spread flds);
          st2 = updateFormErrors (getFieldsErrors m newFields) st1
      in (st2, if apiError p \<noteq> None then [ClearApiError] else []))"

definition getFields :: "state \<Rightarrow> obj" where
  "getFields st = followerIndex st"

definition isFormValid :: "state \<Rightarrow> bool" where
  "isFormValid st = list_all (\<lambda>error. error = Undefined \<or> error = Null) (map snd (fieldsErrors st))"

definition sendForm :: "state \<Rightarrow> state \<times> call list" where
  "sendForm st =
     (let valid = isFormValid st;
          st1 = st\<lparr>areErrorsVisible := \<not> valid\<rparr>
      in if \<not> valid then (st1, [])
         else (let flds = getFields st;
                   name = getProp flds ''name'';
                   rest = AList.delete ''name'' flds
               in (st1, [SaveFollowerIndex name rest])))"

definition cancelForm :: "state \<Rightarrow> state \<times> call list" where
  "cancelForm st = (st, [Navigate ''/follower_indices''])"

text \<open>
  \<^verbatim>\<open>onIndexNameChange({ name })\<close>: the name is the string of the text input. The call of
  the debounced \<^verbatim>\<open>validateIndexName\<close> is recorded as \<open>ValidateIndexName\<close>; when the
  debounced function runs, and on which of several calls, is up to the timer.
\<close>

definition onIndexNameChange :: "modules \<Rightarrow> props \<Rightarrow> string \<Rightarrow> state \<Rightarrow> state \<times> call list" where
  "onIndexNameChange m p name st =
     (let (st1, calls) = onFieldsChange m p (Some [(''name'', JStr name)]) st
      in if \<not> truthy (JStr name) \<or> \<not> truthy (JStr (trim name))
         then (st1\<lparr>isValidatingIndexName := False\<rparr>, calls)
         else (st1\<lparr>isValidatingIndexName := True\<rparr>, calls @ [ValidateIndexName name]))"

text \<open>The outcome of awaiting \<^verbatim>\<open>loadIndices()\<close>: the list of indices, or the error thrown.\<close>

datatype loaded = Resolved "obj list" | Rejected jsval

definition indexAlreadyExistError :: jsval where
  "indexAlreadyExistError =
     JObj [(''message'',
            element ''FormattedMessage''
              [(''id'', JStr ''xpack.crossClusterReplication.followerIndexForm.indexAlreadyExistError''),
               (''defaultMessage'', JStr ''An index with the same name already exists.'')]),
           (''alwaysVisible'', JBool True)]"

definition validateIndexName :: "modules \<Rightarrow> string \<Rightarrow> loaded \<Rightarrow> state \<Rightarrow> state \<times> call list" where
  "validateIndexName m name outcome st =
     (case outcome of
        Resolved indices \<Rightarrow>
          (let doesExist = list_ex (\<lambda>index. getProp index ''name'' = JStr name) indices;
               st1 = (if doesExist then updateFormErrors [(''name'', indexAlreadyExistError)] st else st)
           in (st1\<lparr>isValidatingIndexName := False\<rparr>, []))
      | Rejected error \<Rightarrow>
          (let st1 = (if truthy error \<and> truthy (member error ''data'')
                      then st\<lparr>isValidatingIndexName := False\<rparr> else st)
           in (st1,
               [FatalError error
                  (translate m ''xpack.crossClusterReplication.followerIndexForm.indexNameValidationFatalErrorTitle''
                     [(''defaultMessage'', JStr ''Follower Index Forn index name validation'')])])))"

definition onClusterChange :: "modules \<Rightarrow> props \<Rightarrow> jsval \<Rightarrow> state \<Rightarrow> state \<times> call list" where
  "onClusterChange m p remoteCluster st = onFieldsChange m p (Some [(''remoteCluster'', remoteCluster)]) st"


text \<open>
  \<^verbatim>\<open>toggleAdvancedSettings\<close>: the updater reads the fields of the current state, calls
  \<^verbatim>\<open>onFieldsChange\<close>, whose two state transitions change \<^verbatim>\<open>followerIndex\<close> and
  \<^verbatim>\<open>fieldsErrors\<close>, and returns the two other keys.
\<close>

definition newCachedAdvancedSettings :: "modules \<Rightarrow> obj \<Rightarrow> obj" where
  "newCachedAdvancedSettings m flds =
     fold (\<lambda>advancedSetting cache.
            (let v = getProp flds (field advancedSetting)
             in if v \<noteq> JStr [] then AList.update (field advancedSetting) v cache else cache))
       (advancedSettingsFields m) []"

definition toggleAdvancedSettings :: "modules \<Rightarrow> props \<Rightarrow> state \<Rightarrow> state \<times> call list" where
  "toggleAdvancedSettings m p st =
     (if areAdvancedSettingsVisible st
      then (let flds = getFields st;
                cache = newCachedAdvancedSettings m flds;
                (st1, calls) = onFieldsChange m p (Some (emptyAdvancedSettings m)) st
            in (st1\<lparr>areAdvancedSettingsVisible := False, cachedAdvancedSettings := Some cache\<rparr>, calls))
      else (let (st1, calls) = onFieldsChange m p (cachedAdvancedSettings st) st
            in (st1\<lparr>areAdvancedSettingsVisible := True, cachedAdvancedSettings := Some []\<rparr>, calls)))"

text \<open>\<^verbatim>\<open>renderApiErrors\<close>: the element rendered, or \<^verbatim>\<open>null\<close>.\<close>

definition renderApiErrors :: "props \<Rightarrow> state \<Rightarrow> jsval" where
  "renderApiErrors p st =
     (case apiError p of
        None \<Rightarrow> Null
      | Some err \<Rightarrow>
          (let title = formatMessage p
                 [(''id'', JStr ''xpack.crossClusterReplication.followerIndexForm.savingErrorTitle''),
                  (''defaultMessage'', JStr ''Error creating follower index'')] None;
               leaderIndex = getProp (followerIndex st) ''leaderIndex'';
               error =
                 (if getProp err ''status'' = JNum 404
                  then JObj [(''data'', JObj [(''message'',
                         formatMessage p
                           [(''id'', JStr ''xpack.crossClusterReplication.followerIndexForm.leaderIndexNotFoundError''),
                            (''defaultMessage'',
                             JStr ''The leader index '{leaderIndex}' you want to replicate from does not exist.'')]
                           (Some [(''leaderIndex'', leaderIndex)]))])]
                  else JObj err)
           in element ''SectionError'' [(''title'', title), (''error'', error)]))"

subsection \<open>An instance for evaluating the model\<close>

text \<open>
  A table of two advanced settings, one validated as a number and one without a
  validator, validators of the name and the leader index that require a value (the
  examples call no inherited member but \<^verbatim>\<open>toString\<close>), and the state of a new form filled in with the name
  \<^verbatim>\<open>orders-follower\<close>, the cluster \<^verbatim>\<open>cluster-a\<close> and the leader index
  \<^verbatim>\<open>orders\<close>.
\<close>

definition requiredValidator :: "jsval \<Rightarrow> jsval" where
  "requiredValidator v = (if truthy v then Undefined else JStr ''required'')"

definition isDigit :: "char \<Rightarrow> bool" where
  "isDigit c = (48 \<le> (of_char c :: nat) \<and> (of_char c :: nat) \<le> 57)"

fun numberValidator :: "jsval \<Rightarrow> jsval" where
  "numberValidator (JStr s) = (if list_all isDigit s then Undefined else JStr ''must be a number'')"
| "numberValidator (JNum n) = Undefined"
| "numberValidator v = JStr ''must be a number''"

definition exampleModules :: modules where
  "exampleModules =
     \<lparr>advancedSettingsFields =
        [\<lparr>field = ''maxReadRequestSize'', validator = Some numberValidator\<rparr>,
         \<lparr>field = ''maxRetryDelay'', validator = None\<rparr>],
      indexNameValidator = requiredValidator,
      leaderIndexValidator = requiredValidator,
      routingSearch = ''?cluster=cluster-a'',
      extractQueryParams = (\<lambda>search. if search = ''?cluster=cluster-a'' then [(''cluster'', JStr ''cluster-a'')] else []),
      getRemoteClusterName = (\<lambda>clusters selected. selected),
      translate = (\<lambda>ident values. getProp values ''defaultMessage''),
      objectPrototypeCall = (\<lambda>member v. JBool False)\<rparr>"

definition exampleProps :: props where
  "exampleProps =
     \<lparr>followerIndexProp = None,
      apiError = None,
      remoteClusters = Undefined,
      formatMessage = (\<lambda>descriptor values. JObj [(''descriptor'', JObj descriptor), (''values'', JObj (spread values))])\<rparr>"

definition ordersState :: state where
  "ordersState =
     \<lparr>isNew = True,
      followerIndex =
        [(''name'', JStr ''orders-follower''), (''remoteCluster'', JStr ''cluster-a''),
         (''leaderIndex'', JStr ''orders''), (''maxReadRequestSize'', JStr []), (''maxRetryDelay'', JStr [])],
      fieldsErrors = [(''name'', Undefined), (''leaderIndex'', Undefined), (''maxReadRequestSize'', Undefined)],
      areErrorsVisible = False,
      areAdvancedSettingsVisible = False,
      isValidatingIndexName = False,
      cachedAdvancedSettings = None\<rparr>"

text \<open>
  The same form with the advanced settings shown and a retry delay entered, and the
  form after the name check has found an index of the same name.
\<close>

definition advancedState :: state where
  "advancedState =
     ordersState
       \<lparr>followerIndex :=
          [(''name'', JStr ''orders-follower''), (''remoteCluster'', JStr ''cluster-a''),
           (''leaderIndex'', JStr ''orders''), (''maxReadRequestSize'', JStr []),
           (''maxRetryDelay'', JStr ''10s'')],
        areAdvancedSettingsVisible := True\<rparr>"

definition conflictState :: state where
  "conflictState = updateFormErrors [(''name'', indexAlreadyExistError)] ordersState"


section \<open>Properties\<close>

subsection \<open>Objects\<close>

lemma map_of_keyed:
  "map_of (map (\<lambda>a. (key a, G (key a))) xs) f = (if f \<in> key ` set xs then Some (G f) else None)"
  by (induction xs) auto

lemma fold_cond_update:
  "fold (\<lambda>a acc. if C a then AList.update (key a) (val a) acc else acc) xs acc
     = fold (\<lambda>(k, v). AList.update k v) (map (\<lambda>a. (key a, val a)) (filter C xs)) acc"
  by (induction xs arbitrary: acc) auto

lemma map_of_fold_update:
  "map_of (fold (\<lambda>(k, v). AList.update k v) kvs al) = map_of al ++ map_of (rev kvs)"
proof (induction kvs arbitrary: al)
  case Nil
  show ?case by simp
next
  case (Cons kv kvs)
  obtain k v where kv: "kv = (k, v)" by (cases kv)
  show ?case
    by (simp add: kv Cons.IH update_conv' fun_eq_iff map_add_def split: option.splits)
qed

lemma map_of_fold_keyed:
  "map_of (fold (\<lambda>a acc. if C (key a) then AList.update (key a) (G (key a)) acc else acc) xs acc) f
     = (if f \<in> key ` set xs \<and> C f then Some (G f) else map_of acc f)"
proof -
  have "map_of (rev (map (\<lambda>a. (key a, G (key a))) (filter (\<lambda>a. C (key a)) xs))) f
          = (if f \<in> key ` set xs \<and> C f then Some (G f) else None)"
    using map_of_keyed [of key G "rev (filter (\<lambda>a. C (key a)) xs)" f]
    by (auto simp: rev_map)
  then show ?thesis
    by (simp add: fold_cond_update [of "\<lambda>a. C (key a)" key "\<lambda>a. G (key a)"] map_of_fold_update map_add_def)
qed

lemma distinct_fold_keyed:
  "distinct (map fst acc) \<Longrightarrow>
   distinct (map fst (fold (\<lambda>a acc. if C a then AList.update (key a) (val a) acc else acc) xs acc))"
  by (induction xs arbitrary: acc) (auto simp: distinct_update)

lemma keys_fold_keyed:
  "fst ` set (fold (\<lambda>a acc. if C a then AList.update (key a) (val a) acc else acc) xs acc)
     = fst ` set acc \<union> key ` {a \<in> set xs. C a}"
  by (induction xs arbitrary: acc) (auto simp: dom_update)

lemma map_of_assign: "map_of (assign target source) = map_of target ++ map_of (rev source)"
  unfolding assign_def by (rule map_of_fold_update)

lemma map_of_rev_distinct: "distinct (map fst xs) \<Longrightarrow> map_of (rev xs) = map_of xs"
proof -
  assume d: "distinct (map fst xs)"
  have "map fst (rev xs) = rev (map fst xs)" by (rule rev_map[symmetric])
  with d have "distinct (map fst (rev xs))" by simp
  then show ?thesis using d by (simp add: map_of_inject_set)
qed

lemma map_of_assign_distinct:
  "distinct (map fst source) \<Longrightarrow> map_of (assign target source) = map_of target ++ map_of source"
  by (simp add: map_of_assign map_of_rev_distinct)

lemma getProp_assign:
  assumes "distinct (map fst source)"
  shows "getProp (assign target source) k =
           (if k \<in> fst ` set source then getProp source k else getProp target k)"
proof (cases "map_of source k")
  case None
  then have "k \<notin> fst ` set source" by (simp add: map_of_eq_None_iff)
  then show ?thesis using None assms by (simp add: getProp_def map_of_assign_distinct map_add_def)
next
  case (Some v)
  then have "k \<in> fst ` set source" by (metis map_of_eq_None_iff option.distinct(1))
  then show ?thesis using Some assms by (simp add: getProp_def map_of_assign_distinct map_add_def)
qed

lemma map_of_assign_notin:
  "k \<notin> fst ` set source \<Longrightarrow> map_of (assign target source) k = map_of target k"
  by (simp add: map_of_assign map_add_def map_of_eq_None_iff[THEN iffD2] split: option.splits)

lemma keys_assign: "fst ` set (assign target source) = fst ` set target \<union> fst ` set source"
  unfolding assign_def
proof (induction source arbitrary: target)
  case Nil
  show ?case by simp
next
  case (Cons kv source)
  obtain k v where kv: "kv = (k, v)" by (cases kv)
  have "fst ` set (fold (\<lambda>(k, v). AList.update k v) source (AList.update k v target)) =
          fst ` set (AList.update k v target) \<union> fst ` set source"
    by (rule Cons.IH)
  then show ?case by (simp add: kv dom_update Un_ac)
qed

lemma distinct_assign: "distinct (map fst target) \<Longrightarrow> distinct (map fst (assign target source))"
  unfolding assign_def
  by (induction source arbitrary: target) (auto simp: distinct_update)

lemma delete_filter: "AList.delete k al = [kv \<leftarrow> al. fst kv \<noteq> k]"
  by (induction al) auto

lemma assign_Nil: "assign target [] = target"
  by (simp add: assign_def)




lemma getProp_assign_single: "getProp (assign target [(k, v)]) k = v"
proof -
  have "getProp (assign target [(k, v)]) k = getProp [(k, v)] k"
    by (simp add: getProp_assign)
  also have "\<dots> = v" by (simp add: getProp_def)
  finally show ?thesis .
qed

lemma getProp_map_add:
  "distinct (map fst source) \<Longrightarrow>
   getProp (assign target source) k =
     (case map_of source k of None \<Rightarrow> getProp target k | Some v \<Rightarrow> v)"
  by (simp add: getProp_def map_of_assign_distinct map_add_def split: option.splits)

subsection \<open>The validator table and the field errors\<close>








lemma getFieldsErrors_fold:
  "getFieldsErrors m newFields =
     fold (\<lambda>fld errors. if fieldToValidatorMap m fld \<noteq> None
             then AList.update fld (the (fieldToValidatorMap m fld) (getProp newFields fld)) errors
             else errors)
       (map fst newFields) []"
proof -
  have "(\<lambda>fld errors. case fieldToValidatorMap m fld of None \<Rightarrow> errors
            | Some vald \<Rightarrow> AList.update fld (vald (getProp newFields fld)) errors)
        = (\<lambda>fld errors. if fieldToValidatorMap m fld \<noteq> None
             then AList.update fld (the (fieldToValidatorMap m fld) (getProp newFields fld)) errors
             else errors)"
    by (auto simp: fun_eq_iff split: option.splits)
  then show ?thesis by (simp add: getFieldsErrors_def)
qed

lemma map_of_getFieldsErrors:
  "map_of (getFieldsErrors m newFields) f =
     (if f \<in> fst ` set newFields
      then (case fieldToValidatorMap m f of None \<Rightarrow> None | Some vald \<Rightarrow> Some (vald (getProp newFields f)))
      else None)"
  using map_of_fold_keyed [of "\<lambda>f. fieldToValidatorMap m f \<noteq> None" "\<lambda>f. f"
      "\<lambda>f. the (fieldToValidatorMap m f) (getProp newFields f)" "map fst newFields" "[]" f]
  by (auto simp: getFieldsErrors_fold split: option.splits)

lemma distinct_getFieldsErrors: "distinct (map fst (getFieldsErrors m newFields))"
  unfolding getFieldsErrors_fold by (rule distinct_fold_keyed) simp

lemma keys_getFieldsErrors:
  "fst ` set (getFieldsErrors m newFields) = {f \<in> fst ` set newFields. fieldToValidatorMap m f \<noteq> None}"
  unfolding getFieldsErrors_fold by (auto simp: keys_fold_keyed)


subsection \<open>Editing fields\<close>

lemma onFieldsChange_state:
  "fst (onFieldsChange m p flds st) =
     st\<lparr>followerIndex := assign (followerIndex st) (spread flds),
        fieldsErrors := assign (fieldsErrors st) (getFieldsErrors m (assign [] (spread flds)))\<rparr>"
  by (simp add: onFieldsChange_def Let_def updateFields_def updateFormErrors_def stateFields_def)

lemma map_of_onFieldsChange_errors:
  "map_of (fieldsErrors (fst (onFieldsChange m p flds st))) f =
     (if f \<in> fst ` set (spread flds)
      then (case fieldToValidatorMap m f of
              None \<Rightarrow> map_of (fieldsErrors st) f
            | Some vald \<Rightarrow> Some (vald (getProp (assign [] (spread flds)) f)))
      else map_of (fieldsErrors st) f)"
  by (simp add: onFieldsChange_state map_of_assign_distinct distinct_getFieldsErrors
      map_add_def map_of_getFieldsErrors keys_assign split: option.splits)

lemma onFieldsChange_calls:
  "snd (onFieldsChange m p flds st) = (if apiError p \<noteq> None then [ClearApiError] else [])"
  by (simp add: onFieldsChange_def Let_def)




text \<open>
  Claim C10. \<^verbatim>\<open>updateFormErrors\<close> merges: an entry of the field errors whose key is not
  in the update is as before (present with the same value, or absent). So
  \<^verbatim>\<open>onFieldsChange\<close> leaves the stored error of every field outside the fields it is
  given untouched.
\<close>

theorem updateFormErrors_frame:
  "(\<forall>k. k \<notin> fst ` set errors \<longrightarrow>
        map_of (fieldsErrors (updateFormErrors errors st)) k = map_of (fieldsErrors st) k)
   \<and> (\<forall>k. k \<notin> fst ` set (spread flds) \<longrightarrow>
        map_of (fieldsErrors (fst (onFieldsChange m p flds st))) k = map_of (fieldsErrors st) k
        \<and> getProp (fieldsErrors (fst (onFieldsChange m p flds st))) k = getProp (fieldsErrors st) k)"
  by (simp add: updateFormErrors_def map_of_assign_notin map_of_onFieldsChange_errors getProp_def)

theorem updateFormErrors_frame_witness:
  "''leaderIndex'' \<notin> fst ` set [(''name'', indexAlreadyExistError)]
   \<and> map_of (fieldsErrors (updateFormErrors [(''name'', indexAlreadyExistError)] ordersState)) ''leaderIndex''
       = Some Undefined
   \<and> ''name'' \<notin> fst ` set (spread (Some [(''leaderIndex'', JStr [])]))
   \<and> getProp (fieldsErrors (fst (onFieldsChange exampleModules exampleProps
         (Some [(''leaderIndex'', JStr [])]) conflictState))) ''name'' = indexAlreadyExistError"
  using updateFormErrors_frame [where errors = "[(''name'', indexAlreadyExistError)]" and st = ordersState]
    updateFormErrors_frame [where flds = "Some [(''leaderIndex'', JStr [])]" and m = exampleModules
      and p = exampleProps and st = conflictState]
  by (simp add: conflictState_def ordersState_def updateFormErrors_def assign_def getProp_def)

subsection \<open>Editing the name\<close>

lemma dropWhile_all_iff: "(\<forall>x \<in> set (dropWhile P xs). P x) \<longleftrightarrow> (\<forall>x \<in> set xs. P x)"
  by (induction xs) auto

lemma trim_empty_iff: "trim s = [] \<longleftrightarrow> (\<forall>c \<in> set s. isWhiteSpace c)"
  by (simp add: trim_def dropWhile_all_iff)

text \<open>
  Claim C6. For a name that is empty or has white space only, \<^verbatim>\<open>onIndexNameChange\<close>
  sets \<^verbatim>\<open>isValidatingIndexName\<close> to false and does not call the debounced check. For
  every other name it sets the indicator to true and calls the debounced check with the
  name, after the calls of \<^verbatim>\<open>onFieldsChange\<close>.
\<close>

theorem onIndexNameChange_validating:
  "((name = [] \<or> (\<forall>c \<in> set name. isWhiteSpace c)) \<longrightarrow>
      isValidatingIndexName (fst (onIndexNameChange m p name st)) = False
      \<and> (\<forall>n. ValidateIndexName n \<notin> set (snd (onIndexNameChange m p name st))))
   \<and> (\<not> (name = [] \<or> (\<forall>c \<in> set name. isWhiteSpace c)) \<longrightarrow>
      isValidatingIndexName (fst (onIndexNameChange m p name st)) = True
      \<and> snd (onIndexNameChange m p name st) =
          snd (onFieldsChange m p (Some [(''name'', JStr name)]) st) @ [ValidateIndexName name])"
proof (cases "name = [] \<or> (\<forall>c \<in> set name. isWhiteSpace c)")
  case True
  then have t: "trim name = []" by (auto simp: trim_empty_iff)
  have "onIndexNameChange m p name st =
          ((fst (onFieldsChange m p (Some [(''name'', JStr name)]) st))\<lparr>isValidatingIndexName := False\<rparr>,
           snd (onFieldsChange m p (Some [(''name'', JStr name)]) st))"
    using t by (simp add: onIndexNameChange_def case_prod_unfold Let_def)
  then show ?thesis using True by (simp add: onFieldsChange_calls)
next
  case False
  then have t: "trim name \<noteq> []" and n: "name \<noteq> []" by (auto simp: trim_empty_iff)
  have "onIndexNameChange m p name st =
          ((fst (onFieldsChange m p (Some [(''name'', JStr name)]) st))\<lparr>isValidatingIndexName := True\<rparr>,
           snd (onFieldsChange m p (Some [(''name'', JStr name)]) st) @ [ValidateIndexName name])"
    using t n by (simp add: onIndexNameChange_def case_prod_unfold Let_def)
  then show ?thesis using False by simp
qed

theorem onIndexNameChange_validating_witness:
  "list_all isWhiteSpace ''  ''
   \<and> isValidatingIndexName (fst (onIndexNameChange exampleModules exampleProps ''  ''
         (ordersState\<lparr>isValidatingIndexName := True\<rparr>))) = False
   \<and> snd (onIndexNameChange exampleModules exampleProps ''  ''
         (ordersState\<lparr>isValidatingIndexName := True\<rparr>)) = []
   \<and> \<not> list_all isWhiteSpace ''a b'' \<and> ''a b'' \<noteq> []
   \<and> isValidatingIndexName (fst (onIndexNameChange exampleModules exampleProps ''a b'' ordersState)) = True
   \<and> snd (onIndexNameChange exampleModules exampleProps ''a b'' ordersState) = [ValidateIndexName ''a b'']"
  using onIndexNameChange_validating [of "''  ''" exampleModules exampleProps
      "ordersState\<lparr>isValidatingIndexName := True\<rparr>"]
    onIndexNameChange_validating [of "''a b''" exampleModules exampleProps ordersState]
  by (simp add: isWhiteSpace_def onIndexNameChange_def onFieldsChange_def exampleProps_def trim_def Let_def)

subsection \<open>The name check\<close>

lemma resolved_next_state:
  "fst (validateIndexName m name (Resolved indices) st) =
     (if list_ex (\<lambda>index. getProp index ''name'' = JStr name) indices
      then updateFormErrors [(''name'', indexAlreadyExistError)] st else st)\<lparr>isValidatingIndexName := False\<rparr>"
  by (simp add: validateIndexName_def Let_def)

text \<open>
  Claim C5. When \<^verbatim>\<open>loadIndices()\<close> resolves and some entry of the list has the
  candidate name as its \<^verbatim>\<open>name\<close>, the error descriptor with \<^verbatim>\<open>alwaysVisible: true\<close>
  is stored under \<^verbatim>\<open>name\<close> in the field errors. With or without a match,
  \<^verbatim>\<open>isValidatingIndexName\<close> is false afterwards, and no collaborator is called.
\<close>

theorem validateIndexName_resolved:
  "((\<exists>index \<in> set indices. getProp index ''name'' = JStr name) \<longrightarrow>
      getProp (fieldsErrors (fst (validateIndexName m name (Resolved indices) st))) ''name'' = indexAlreadyExistError
      \<and> member indexAlreadyExistError ''alwaysVisible'' = JBool True)
   \<and> isValidatingIndexName (fst (validateIndexName m name (Resolved indices) st)) = False
   \<and> snd (validateIndexName m name (Resolved indices) st) = []"
proof -
  have a: "member indexAlreadyExistError ''alwaysVisible'' = JBool True"
    by (simp add: indexAlreadyExistError_def getProp_def)
  have b: "getProp (fieldsErrors (updateFormErrors [(''name'', indexAlreadyExistError)] st)) ''name''
             = indexAlreadyExistError"
    by (simp add: updateFormErrors_def getProp_assign_single)
  show ?thesis
    using a b by (simp add: resolved_next_state list_ex_iff) (simp add: validateIndexName_def Let_def)
qed

theorem validateIndexName_resolved_witness:
  "(\<exists>index \<in> set [[(''name'', JStr ''orders''), (''health'', JStr ''green'')],
                     [(''name'', JStr ''orders-follower'')]].
       getProp index ''name'' = JStr ''orders-follower'')
   \<and> getProp (fieldsErrors (fst (validateIndexName exampleModules ''orders-follower''
         (Resolved [[(''name'', JStr ''orders''), (''health'', JStr ''green'')],
                    [(''name'', JStr ''orders-follower'')]])
         (ordersState\<lparr>isValidatingIndexName := True\<rparr>)))) ''name'' = indexAlreadyExistError
   \<and> isValidatingIndexName (fst (validateIndexName exampleModules ''orders-follower''
         (Resolved [[(''name'', JStr ''orders''), (''health'', JStr ''green'')],
                    [(''name'', JStr ''orders-follower'')]])
         (ordersState\<lparr>isValidatingIndexName := True\<rparr>))) = False"
  using validateIndexName_resolved [of "[[(''name'', JStr ''orders''), (''health'', JStr ''green'')],
      [(''name'', JStr ''orders-follower'')]]" "''orders-follower''" exampleModules
      "ordersState\<lparr>isValidatingIndexName := True\<rparr>"]
  by (simp add: getProp_def)

lemma validateIndexName_rejected_calls:
  "snd (validateIndexName m name (Rejected error) st) =
     [FatalError error
        (translate m ''xpack.crossClusterReplication.followerIndexForm.indexNameValidationFatalErrorTitle''
           [(''defaultMessage'', JStr ''Follower Index Forn index name validation'')])]"
  by (simp add: validateIndexName_def Let_def)

text \<open>
  Claim C2. The claim is that a rejection of \<^verbatim>\<open>loadIndices()\<close> with a structured
  payload (\<^verbatim>\<open>error.data\<close>) clears the validating indicator, sets no error on the name
  and does not reach the fatal-error reporter. The \<^verbatim>\<open>catch\<close> block has no
  \<^verbatim>\<open>return\<close> after the branch for the structured payload, so \<^verbatim>\<open>fatalError\<close> is
  called on every rejection: at the rejection
  \<^verbatim>\<open>{ status: 500, data: { message: 'Internal Server Error' } }\<close> the indicator is
  cleared, the field errors are as before, and \<^verbatim>\<open>fatalError\<close> is called with the
  error.
\<close>

theorem validateIndexName_structured_rejection:
  "validateIndexName exampleModules ''orders-follower''
     (Rejected (JObj [(''status'', JNum 500), (''data'', JObj [(''message'', JStr ''Internal Server Error'')])]))
     (ordersState\<lparr>isValidatingIndexName := True\<rparr>)
   = (ordersState,
      [FatalError (JObj [(''status'', JNum 500), (''data'', JObj [(''message'', JStr ''Internal Server Error'')])])
         (JStr ''Follower Index Forn index name validation'')])"
  by (simp add: validateIndexName_def Let_def exampleModules_def ordersState_def getProp_def)

subsection \<open>Advanced settings\<close>

lemma map_of_emptyAdvancedSettings:
  "map_of (emptyAdvancedSettings m) f =
     (if f \<in> field ` set (advancedSettingsFields m) then Some (JStr []) else None)"
  using map_of_fold_keyed [of "\<lambda>f. True" field "\<lambda>f. JStr []" "advancedSettingsFields m" "[]" f]
  by (simp add: emptyAdvancedSettings_def)

lemma distinct_emptyAdvancedSettings: "distinct (map fst (emptyAdvancedSettings m))"
  using distinct_fold_keyed [of "[]" "\<lambda>a. True" field "\<lambda>a. JStr []" "advancedSettingsFields m"]
  by (simp add: emptyAdvancedSettings_def)

lemma keys_emptyAdvancedSettings:
  "fst ` set (emptyAdvancedSettings m) = field ` set (advancedSettingsFields m)"
  using keys_fold_keyed [of "\<lambda>a. True" field "\<lambda>a. JStr []" "advancedSettingsFields m" "[]"]
  by (simp add: emptyAdvancedSettings_def)

lemma map_of_newCachedAdvancedSettings:
  "map_of (newCachedAdvancedSettings m flds) f =
     (if f \<in> field ` set (advancedSettingsFields m) \<and> getProp flds f \<noteq> JStr []
      then Some (getProp flds f) else None)"
  using map_of_fold_keyed [of "\<lambda>f. getProp flds f \<noteq> JStr []" field "\<lambda>f. getProp flds f"
      "advancedSettingsFields m" "[]" f]
  by (simp add: newCachedAdvancedSettings_def Let_def)

lemma distinct_newCachedAdvancedSettings: "distinct (map fst (newCachedAdvancedSettings m flds))"
  using distinct_fold_keyed [of "[]" "\<lambda>a. getProp flds (field a) \<noteq> JStr []" field
      "\<lambda>a. getProp flds (field a)" "advancedSettingsFields m"]
  by (simp add: newCachedAdvancedSettings_def Let_def)

lemma toggle_hide:
  "areAdvancedSettingsVisible st \<Longrightarrow>
   fst (toggleAdvancedSettings m p st) =
     (fst (onFieldsChange m p (Some (emptyAdvancedSettings m)) st))
       \<lparr>areAdvancedSettingsVisible := False,
        cachedAdvancedSettings := Some (newCachedAdvancedSettings m (followerIndex st))\<rparr>"
  by (simp add: toggleAdvancedSettings_def getFields_def Let_def case_prod_unfold)

lemma toggle_show:
  "\<not> areAdvancedSettingsVisible st \<Longrightarrow>
   fst (toggleAdvancedSettings m p st) =
     (fst (onFieldsChange m p (cachedAdvancedSettings st) st))
       \<lparr>areAdvancedSettingsVisible := True, cachedAdvancedSettings := Some []\<rparr>"
  by (simp add: toggleAdvancedSettings_def Let_def case_prod_unfold)

lemma toggle_twice_followerIndex:
  assumes "areAdvancedSettingsVisible st"
  shows "followerIndex (fst (toggleAdvancedSettings m p (fst (toggleAdvancedSettings m p st)))) =
           assign (assign (followerIndex st) (emptyAdvancedSettings m))
             (newCachedAdvancedSettings m (followerIndex st))"
    and "cachedAdvancedSettings (fst (toggleAdvancedSettings m p (fst (toggleAdvancedSettings m p st)))) = Some []"
    and "areAdvancedSettingsVisible (fst (toggleAdvancedSettings m p (fst (toggleAdvancedSettings m p st))))"
    and "\<not> areAdvancedSettingsVisible (fst (toggleAdvancedSettings m p st))"
    and "followerIndex (fst (toggleAdvancedSettings m p st)) = assign (followerIndex st) (emptyAdvancedSettings m)"
    and "cachedAdvancedSettings (fst (toggleAdvancedSettings m p st)) =
           Some (newCachedAdvancedSettings m (followerIndex st))"
proof -
  let ?s1 = "fst (toggleAdvancedSettings m p st)"
  have h: "?s1 = (fst (onFieldsChange m p (Some (emptyAdvancedSettings m)) st))
       \<lparr>areAdvancedSettingsVisible := False,
        cachedAdvancedSettings := Some (newCachedAdvancedSettings m (followerIndex st))\<rparr>"
    using assms by (rule toggle_hide)
  show n: "\<not> areAdvancedSettingsVisible ?s1" by (simp add: h)
  show f1: "followerIndex ?s1 = assign (followerIndex st) (emptyAdvancedSettings m)"
    by (simp add: h onFieldsChange_state)
  show c1: "cachedAdvancedSettings ?s1 = Some (newCachedAdvancedSettings m (followerIndex st))"
    by (simp add: h)
  have s: "fst (toggleAdvancedSettings m p ?s1) =
     (fst (onFieldsChange m p (cachedAdvancedSettings ?s1) ?s1))
       \<lparr>areAdvancedSettingsVisible := True, cachedAdvancedSettings := Some []\<rparr>"
    using n by (rule toggle_show)
  show "followerIndex (fst (toggleAdvancedSettings m p ?s1)) =
           assign (assign (followerIndex st) (emptyAdvancedSettings m))
             (newCachedAdvancedSettings m (followerIndex st))"
    by (simp add: s onFieldsChange_state c1 f1)
  show "cachedAdvancedSettings (fst (toggleAdvancedSettings m p ?s1)) = Some []" by (simp add: s)
  show "areAdvancedSettingsVisible (fst (toggleAdvancedSettings m p ?s1))" by (simp add: s)
qed

lemma getProp_restored:
  "getProp (assign (assign fi (emptyAdvancedSettings m)) (newCachedAdvancedSettings m fi)) f = getProp fi f"
  by (simp add: getProp_map_add distinct_newCachedAdvancedSettings distinct_emptyAdvancedSettings
      map_of_newCachedAdvancedSettings map_of_emptyAdvancedSettings)

lemma getProp_hidden:
  "f \<in> field ` set (advancedSettingsFields m) \<Longrightarrow>
   getProp (assign fi (emptyAdvancedSettings m)) f = JStr []"
  by (simp add: getProp_map_add distinct_emptyAdvancedSettings map_of_emptyAdvancedSettings)

text \<open>
  Claim C3. Starting with the advanced settings shown, toggling hides them and resets
  every advanced-setting field to the empty string; toggling again, with no edit in
  between, shows them, gives every advanced-setting field that was not empty its value
  from before the hiding, leaves the ones that were empty empty, and clears the cache.
\<close>

theorem toggleAdvancedSettings_hide_then_show:
  assumes "areAdvancedSettingsVisible st"
  shows "(\<forall>f \<in> field ` set (advancedSettingsFields m).
            getProp (followerIndex (fst (toggleAdvancedSettings m p st))) f = JStr []
            \<and> (getProp (followerIndex st) f \<noteq> JStr [] \<longrightarrow>
                 getProp (followerIndex (fst (toggleAdvancedSettings m p (fst (toggleAdvancedSettings m p st))))) f
                   = getProp (followerIndex st) f)
            \<and> (getProp (followerIndex st) f = JStr [] \<longrightarrow>
                 getProp (followerIndex (fst (toggleAdvancedSettings m p (fst (toggleAdvancedSettings m p st))))) f
                   = JStr []))
         \<and> \<not> areAdvancedSettingsVisible (fst (toggleAdvancedSettings m p st))
         \<and> areAdvancedSettingsVisible (fst (toggleAdvancedSettings m p (fst (toggleAdvancedSettings m p st))))
         \<and> cachedAdvancedSettings (fst (toggleAdvancedSettings m p (fst (toggleAdvancedSettings m p st)))) = Some []"
  using toggle_twice_followerIndex [OF assms, of m p]
  by (simp add: getProp_restored getProp_hidden)

theorem toggleAdvancedSettings_hide_then_show_witness:
  "areAdvancedSettingsVisible advancedState
   \<and> getProp (followerIndex (fst (toggleAdvancedSettings exampleModules exampleProps advancedState)))
        ''maxRetryDelay'' = JStr []
   \<and> getProp (followerIndex (fst (toggleAdvancedSettings exampleModules exampleProps
        (fst (toggleAdvancedSettings exampleModules exampleProps advancedState))))) ''maxRetryDelay'' = JStr ''10s''
   \<and> getProp (followerIndex (fst (toggleAdvancedSettings exampleModules exampleProps
        (fst (toggleAdvancedSettings exampleModules exampleProps advancedState))))) ''maxReadRequestSize'' = JStr []
   \<and> cachedAdvancedSettings (fst (toggleAdvancedSettings exampleModules exampleProps
        (fst (toggleAdvancedSettings exampleModules exampleProps advancedState)))) = Some []"
proof -
  have v: "areAdvancedSettingsVisible advancedState"
    by (simp add: advancedState_def)
  have f: "field ` set (advancedSettingsFields exampleModules) = {''maxReadRequestSize'', ''maxRetryDelay''}"
    by (simp add: exampleModules_def)
  have g: "getProp (followerIndex advancedState) ''maxRetryDelay'' = JStr ''10s''"
    "getProp (followerIndex advancedState) ''maxReadRequestSize'' = JStr []"
    by (simp_all add: advancedState_def getProp_def)
  show ?thesis
    using v g toggleAdvancedSettings_hide_then_show [OF v, of exampleModules exampleProps]
    by (simp add: f)
qed

subsection \<open>Construction\<close>





subsection \<open>Submission\<close>

lemma isFormValid_iff:
  "isFormValid st \<longleftrightarrow> (\<forall>error \<in> snd ` set (fieldsErrors st). error = Undefined \<or> error = Null)"
  by (simp add: isFormValid_def list_all_iff)

lemma sendForm_calls:
  "snd (sendForm st) =
     (if isFormValid st
      then [SaveFollowerIndex (getProp (followerIndex st) ''name'') (AList.delete ''name'' (followerIndex st))]
      else [])"
  by (simp add: sendForm_def getFields_def Let_def)

text \<open>
  Claim C1. \<^verbatim>\<open>sendForm()\<close> calls \<^verbatim>\<open>saveFollowerIndex\<close> if and only if every tracked
  field error is \<^verbatim>\<open>undefined\<close> or \<^verbatim>\<open>null\<close>. When it does, that is its only call: the
  first argument is the value of \<^verbatim>\<open>name\<close>, the second the record without its
  \<^verbatim>\<open>name\<close> entry, every other entry kept in place and unchanged. When some error is
  present it makes no call and leaves the record alone.
\<close>

theorem sendForm_saves_iff_no_error:
  "((\<exists>name rest. SaveFollowerIndex name rest \<in> set (snd (sendForm st)))
      \<longleftrightarrow> (\<forall>error \<in> snd ` set (fieldsErrors st). error = Undefined \<or> error = Null))
   \<and> ((\<forall>error \<in> snd ` set (fieldsErrors st). error = Undefined \<or> error = Null) \<longrightarrow>
        snd (sendForm st) =
          [SaveFollowerIndex (getProp (followerIndex st) ''name'') (AList.delete ''name'' (followerIndex st))]
        \<and> ''name'' \<notin> fst ` set (AList.delete ''name'' (followerIndex st))
        \<and> AList.delete ''name'' (followerIndex st) = [kv \<leftarrow> followerIndex st. fst kv \<noteq> ''name''])
   \<and> ((\<exists>error \<in> snd ` set (fieldsErrors st). error \<noteq> Undefined \<and> error \<noteq> Null) \<longrightarrow>
        snd (sendForm st) = [] \<and> followerIndex (fst (sendForm st)) = followerIndex st)"
proof -
  have v: "isFormValid st \<longleftrightarrow> (\<forall>error \<in> snd ` set (fieldsErrors st). error = Undefined \<or> error = Null)"
    by (rule isFormValid_iff)
  have c: "snd (sendForm st) =
     (if isFormValid st
      then [SaveFollowerIndex (getProp (followerIndex st) ''name'') (AList.delete ''name'' (followerIndex st))]
      else [])"
    by (rule sendForm_calls)
  have f: "followerIndex (fst (sendForm st)) = followerIndex st"
    by (simp add: sendForm_def Let_def)
  have d: "''name'' \<notin> fst ` set (AList.delete ''name'' (followerIndex st))"
    by (rule delete_notin_dom)
  have e: "AList.delete ''name'' (followerIndex st) = [kv \<leftarrow> followerIndex st. fst kv \<noteq> ''name'']"
    by (rule delete_filter)
  show ?thesis
    using v c f d e by (cases "isFormValid st") (auto simp del: delete_simps)
qed

theorem sendForm_saves_iff_no_error_witness:
  "list_all (\<lambda>error. error = Undefined \<or> error = Null) (map snd (fieldsErrors ordersState))
   \<and> snd (sendForm ordersState) =
       [SaveFollowerIndex (JStr ''orders-follower'')
          [(''remoteCluster'', JStr ''cluster-a''), (''leaderIndex'', JStr ''orders''),
           (''maxReadRequestSize'', JStr []), (''maxRetryDelay'', JStr [])]]
   \<and> (\<exists>error \<in> snd ` set (fieldsErrors (updateFormErrors [(''name'', indexAlreadyExistError)] ordersState)).
         error \<noteq> Undefined \<and> error \<noteq> Null)
   \<and> snd (sendForm (updateFormErrors [(''name'', indexAlreadyExistError)] ordersState)) = []"
  using sendForm_saves_iff_no_error [of ordersState]
    sendForm_saves_iff_no_error [of "updateFormErrors [(''name'', indexAlreadyExistError)] ordersState"]
  by (simp add: ordersState_def updateFormErrors_def assign_def getProp_def indexAlreadyExistError_def)

text \<open>
  Claim C9. \<^verbatim>\<open>sendForm()\<close> sets \<^verbatim>\<open>areErrorsVisible\<close> to the negation of the form's
  validity, whatever the flag was before: on a valid form it is false afterwards, also
  after an earlier failed attempt had set it.
\<close>

theorem sendForm_areErrorsVisible:
  "areErrorsVisible (fst (sendForm st)) = (\<not> isFormValid st)"
  by (simp add: sendForm_def Let_def)

theorem sendForm_areErrorsVisible_witness:
  "isFormValid (ordersState\<lparr>areErrorsVisible := True\<rparr>)
   \<and> areErrorsVisible (fst (sendForm (ordersState\<lparr>areErrorsVisible := True\<rparr>))) = False"
  using sendForm_areErrorsVisible [of "ordersState\<lparr>areErrorsVisible := True\<rparr>"]
  by (simp add: ordersState_def isFormValid_def)

subsection \<open>Rendering the API error\<close>

text \<open>
  Claim C8. Without an API error \<^verbatim>\<open>renderApiErrors\<close> renders nothing
  (\<^verbatim>\<open>null\<close>). With one it renders a \<^verbatim>\<open>SectionError\<close>: when the status is 404 its
  error is a new descriptor whose message is formatted with the current value of
  \<^verbatim>\<open>leaderIndex\<close>, for every other status it is the API error itself.
\<close>

theorem renderApiErrors_cases:
  "(apiError p = None \<longrightarrow> renderApiErrors p st = Null)
   \<and> (\<forall>err. apiError p = Some err \<longrightarrow>
         member (renderApiErrors p st) ''type'' = JStr ''SectionError''
         \<and> member (member (renderApiErrors p st) ''props'') ''error'' =
             (if getProp err ''status'' = JNum 404
              then JObj [(''data'', JObj [(''message'',
                     formatMessage p
                       [(''id'', JStr ''xpack.crossClusterReplication.followerIndexForm.leaderIndexNotFoundError''),
                        (''defaultMessage'',
                         JStr ''The leader index '{leaderIndex}' you want to replicate from does not exist.'')]
                       (Some [(''leaderIndex'', getProp (followerIndex st) ''leaderIndex'')]))])]
              else JObj err))"
  by (simp add: renderApiErrors_def Let_def element_def getProp_def)

theorem renderApiErrors_cases_witness:
  "apiError exampleProps = None
   \<and> renderApiErrors exampleProps ordersState = Null
   \<and> apiError (exampleProps\<lparr>apiError := Some [(''status'', JNum 404)]\<rparr>) = Some [(''status'', JNum 404)]
   \<and> member (member (member (member (member (renderApiErrors
         (exampleProps\<lparr>apiError := Some [(''status'', JNum 404)]\<rparr>) ordersState)
         ''props'') ''error'') ''data'') ''message'') ''values'' = JObj [(''leaderIndex'', JStr ''orders'')]
   \<and> member (member (renderApiErrors
         (exampleProps\<lparr>apiError := Some [(''status'', JNum 500)]\<rparr>) ordersState)
         ''props'') ''error'' = JObj [(''status'', JNum 500)]"
  using renderApiErrors_cases [of exampleProps ordersState]
    renderApiErrors_cases [of "exampleProps\<lparr>apiError := Some [(''status'', JNum 404)]\<rparr>" ordersState]
    renderApiErrors_cases [of "exampleProps\<lparr>apiError := Some [(''status'', JNum 500)]\<rparr>" ordersState]
  by (simp add: exampleProps_def ordersState_def getProp_def)

end
